theory Spec2Isabelle
  imports Complex_Main "HOL-Library.Word"
begin

section \<open>JavaScript values used by the transcriber\<close>

text \<open>
  A JavaScript string is a sequence of 16-bit code units; a \<open>Uint8Array\<close> is a sequence
  of bytes. String literals of the source are embedded with \<open>js\<close>. A thrown
  \<open>new Error(msg)\<close> is the value \<open>Error msg\<close>, a \<open>TypeError\<close> that the engine raises is
  \<open>TypeError msg\<close>; a promise that rejects with \<open>e\<close> is \<open>Inl e\<close>, one that resolves with
  \<open>v\<close> is \<open>Inr v\<close>.
\<close>

type_synonym byte = "8 word"
type_synonym jschar = "16 word"
type_synonym jsstring = "jschar list"

definition js :: "string \<Rightarrow> jsstring" where
  "js s = map (\<lambda>c. of_nat (of_char c)) s"

datatype js_error = Error (message: jsstring) | TypeError (message: jsstring)

text \<open>
  What the code meets of the engine it runs on: the longest string the engine builds, the
  largest number of arguments it passes in one call, and the text it gives a
  \<open>TypeError\<close> (one text here, whatever the cause). Running out of memory below these
  bounds is not modelled.
\<close>

record engine =
  max_string_length :: nat
  max_arguments :: nat
  type_error_message :: jsstring

text \<open>\<open>s.startsWith(p)\<close> and \<open>s.includes(p)\<close> on code units.\<close>

definition startsWith :: "'a list \<Rightarrow> 'a list \<Rightarrow> bool" where
  "startsWith s p = (take (length p) s = p)"

fun includes_str :: "'a list \<Rightarrow> 'a list \<Rightarrow> bool" where
  "includes_str [] p = (p = [])"
| "includes_str (x # xs) p = (startsWith (x # xs) p \<or> includes_str xs p)"

section \<open>The encoder: \<open>fileToBase64\<close>\<close>

subsection \<open>Platform functions: \<open>String.fromCharCode\<close>, \<open>subarray\<close>, \<open>btoa\<close>\<close>

datatype js_exception = RangeError | InvalidCharacterError

text \<open>
  \<open>String.fromCharCode.apply(null, Array.from(chunk))\<close>: one code unit per byte, of the
  same numeric value; a \<open>RangeError\<close> when the engine does not pass that many arguments
  or build that long a string.
\<close>

definition fromCharCode :: "byte list \<Rightarrow> jsstring" where
  "fromCharCode chunk = map ucast chunk"

definition fromCharCode_apply :: "engine \<Rightarrow> byte list \<Rightarrow> js_exception + jsstring" where
  "fromCharCode_apply E chunk =
     (if max_arguments E < length chunk \<or> max_string_length E < length chunk then Inl RangeError
      else Inr (fromCharCode chunk))"

text \<open>\<open>binary += s\<close>: a \<open>RangeError\<close> when the result is longer than the engine's strings.\<close>

definition append_str :: "engine \<Rightarrow> jsstring \<Rightarrow> jsstring \<Rightarrow> js_exception + jsstring" where
  "append_str E binary s =
     (if max_string_length E < length binary + length s then Inl RangeError
      else Inr (binary @ s))"

text \<open>
  \<open>bytes.subarray(b, e)\<close> for non-negative indices: both ends are clamped to the length
  of the array, and the view is empty when the clamped end is not beyond the start.
\<close>

definition subarray :: "'a list \<Rightarrow> nat \<Rightarrow> nat \<Rightarrow> 'a list" where
  "subarray xs b e = drop b (take e xs)"

text \<open>
  \<open>btoa\<close> (HTML standard): throws \<open>InvalidCharacterError\<close> when a code unit exceeds
  \<open>0xFF\<close>; otherwise it is the base64 encoding of RFC 4648, section 4, of the bytes the
  code units stand for: three bytes give four characters of the alphabet, a final group of
  one or two bytes is padded with \<open>=\<close>. A \<open>RangeError\<close> when the result is longer than
  the engine's strings.
\<close>

definition alphabet :: string where
  "alphabet = ''ABCDEFGHIJKLMNOPQRSTUVWXYZabcdefghijklmnopqrstuvwxyz0123456789+/''"

definition pad :: jschar where
  "pad = 61"

definition enc6 :: "nat \<Rightarrow> jschar" where
  "enc6 n = js alphabet ! n"

fun base64_encode :: "nat list \<Rightarrow> jsstring" where
  "base64_encode [] = []"
| "base64_encode [a] = [enc6 (a div 4), enc6 (a mod 4 * 16), pad, pad]"
| "base64_encode [a, b] =
     [enc6 (a div 4), enc6 (a mod 4 * 16 + b div 16), enc6 (b mod 16 * 4), pad]"
| "base64_encode (a # b # c # rest) =
     [enc6 (a div 4), enc6 (a mod 4 * 16 + b div 16),
      enc6 (b mod 16 * 4 + c div 64), enc6 (c mod 64)] @ base64_encode rest"

definition btoa :: "engine \<Rightarrow> jsstring \<Rightarrow> js_exception + jsstring" where
  "btoa E data =
     (if list_ex (\<lambda>c. 255 < unat c) data then Inl InvalidCharacterError
      else if max_string_length E < length (base64_encode (map unat data)) then Inl RangeError
      else Inr (base64_encode (map unat data)))"

subsection \<open>The standard decoder\<close>





subsection \<open>\<open>fileToBase64\<close>\<close>

text \<open>
  The \<open>FileReader\<close> either fires \<open>onerror\<close>, or fires \<open>onload\<close> with
  \<open>reader.result\<close>, which is \<open>null\<close> or an \<open>ArrayBuffer\<close>. An \<open>ArrayBuffer\<close> of
  length 0 is an object and therefore truthy. Whatever is thrown inside the \<open>try\<close>
  block, by the call with the chunk as arguments, by the concatenation or by \<open>btoa\<close>,
  is caught and turned into the one rejection of the \<open>catch\<close> clause.
\<close>

datatype read_outcome = OnError | OnLoad "byte list option"

definition chunk_size :: nat where
  "chunk_size = 0x8000"

text \<open>The loop \<open>for (let i = 0; i < len; i += chunk_size)\<close>, with its accumulator.\<close>

function chunk_loop :: "engine \<Rightarrow> byte list \<Rightarrow> nat \<Rightarrow> jsstring \<Rightarrow> js_exception + jsstring" where
  "chunk_loop E bytes i binary =
     (if i < length bytes then
        (case fromCharCode_apply E (subarray bytes i (i + chunk_size)) of
           Inl e \<Rightarrow> Inl e
         | Inr s \<Rightarrow>
             (case append_str E binary s of
                Inl e \<Rightarrow> Inl e
              | Inr binary' \<Rightarrow> chunk_loop E bytes (i + chunk_size) binary'))
      else Inr binary)"
  by pat_completeness auto
termination
  by (relation "measure (\<lambda>(E, bytes, i, binary). length bytes - i)") (auto simp: chunk_size_def)

declare chunk_loop.simps [simp del]

definition fileToBase64 :: "engine \<Rightarrow> read_outcome \<Rightarrow> js_error + jsstring" where
  "fileToBase64 E r =
     (case r of
        OnError \<Rightarrow>
          Inl (Error (js ''Error occurred while reading the file. The file might be locked or inaccessible.''))
      | OnLoad None \<Rightarrow>
          Inl (Error (js ''Failed to read the file contents (buffer is empty).''))
      | OnLoad (Some bytes) \<Rightarrow>
          (case chunk_loop E bytes 0 [] of
             Inl e \<Rightarrow>
               Inl (Error (js ''Failed to convert file to Base64. The file may be too large for browser memory limits.''))
           | Inr binary \<Rightarrow>
               (case btoa E binary of
                  Inl e \<Rightarrow>
                    Inl (Error (js ''Failed to convert file to Base64. The file may be too large for browser memory limits.''))
                | Inr base64 \<Rightarrow> Inr base64)))"

section \<open>The transcription client: \<open>transcribeMedia\<close>\<close>

text \<open>
  \<open>a || b\<close> where \<open>a\<close> is a string or \<open>undefined\<close>: \<open>b\<close> when \<open>a\<close> is \<open>undefined\<close>
  or the empty string, \<open>a\<close> otherwise.
\<close>

definition or_else :: "jsstring option \<Rightarrow> jsstring \<Rightarrow> jsstring" where
  "or_else a b = (case a of None \<Rightarrow> b | Some s \<Rightarrow> if s = [] then b else s)"

text \<open>\<open>const apiKey = process.env.API_KEY || ''\<close>, the environment variable being a parameter.\<close>

definition apiKey :: "jsstring option \<Rightarrow> jsstring" where
  "apiKey env_API_KEY = or_else env_API_KEY []"

text \<open>The argument of \<open>ai.models.generateContent\<close>: the model, the inline data part, the text part.\<close>

record request =
  req_model :: jsstring
  req_mimeType :: jsstring
  req_data :: jsstring
  req_text :: jsstring

text \<open>
  A value as the \<open>catch\<close> clause can meet it in \<open>error.message\<close>: \<open>undefined\<close> or
  \<open>null\<close>; a string; or anything else, of which the clause uses whether it is truthy,
  its method \<open>includes\<close> if it has one (what the call answers, as a truth value), and
  the string it converts to. A getter, a method or a conversion of the thrown value that
  throws on its own account is left aside.
\<close>

datatype js_value = Undefined | Str jsstring | Opaque bool "(jsstring \<Rightarrow> bool) option" jsstring

fun truthy :: "js_value \<Rightarrow> bool" where
  "truthy Undefined = False"
| "truthy (Str s) = (s \<noteq> [])"
| "truthy (Opaque t m c) = t"

text \<open>\<open>a || b\<close> on such values.\<close>

definition or_value :: "js_value \<Rightarrow> js_value \<Rightarrow> js_value" where
  "or_value a b = (if truthy a then a else b)"

text \<open>
  \<open>JSON.stringify(error)\<close> returns a string, returns \<open>undefined\<close> (for a function or a
  symbol), or throws a \<open>TypeError\<close> (for a cyclic value or a \<open>BigInt\<close>).
\<close>

datatype json_result = JsonString jsstring | JsonUndefined | JsonThrows

text \<open>
  What the remote call throws: \<open>null\<close> or \<open>undefined\<close>, or a value, of which the
  \<open>catch\<close> clause reads \<open>error.message\<close> and \<open>JSON.stringify(error)\<close>. The remote call
  resolves with a response whose \<open>text\<close> is a string or \<open>undefined\<close>, or it throws.
\<close>

datatype thrown = ThrownNullish | Thrown js_value json_result

datatype remote_outcome = Resolved "jsstring option" | Rejected thrown

text \<open>
  \<open>new Error(msg)\<close> as the \<open>catch\<close> clause sees it: the own properties of an \<open>Error\<close>
  are not enumerable, so it serialises to \<open>{}\<close>.
\<close>

definition thrown_Error :: "jsstring \<Rightarrow> thrown" where
  "thrown_Error msg = Thrown (Str msg) (JsonString (js ''{}''))"

text \<open>
  The operations of the \<open>catch\<close> clause. Reading \<open>message\<close> of \<open>null\<close> or
  \<open>undefined\<close> is a \<open>TypeError\<close>; so is the call of \<open>includes\<close> on a value that has
  no such method. \<open>new Error(v)\<close> converts \<open>v\<close> to a string.
\<close>

fun JSON_stringify :: "engine \<Rightarrow> json_result \<Rightarrow> js_error + js_value" where
  "JSON_stringify E (JsonString s) = Inr (Str s)"
| "JSON_stringify E JsonUndefined = Inr Undefined"
| "JSON_stringify E JsonThrows = Inl (TypeError (type_error_message E))"

fun includes_method :: "engine \<Rightarrow> js_value \<Rightarrow> jsstring \<Rightarrow> js_error + bool" where
  "includes_method E Undefined x = Inl (TypeError (type_error_message E))"
| "includes_method E (Str s) x = Inr (includes_str s x)"
| "includes_method E (Opaque t None c) x = Inl (TypeError (type_error_message E))"
| "includes_method E (Opaque t (Some f) c) x = Inr (f x)"

fun new_Error :: "js_value \<Rightarrow> js_error" where
  "new_Error Undefined = Error []"
| "new_Error (Str s) = Error s"
| "new_Error (Opaque t m c) = Error c"

definition nl :: jsstring where
  "nl = [10]"

definition timestampInstruction :: "bool \<Rightarrow> jsstring" where
  "timestampInstruction includeTimestamps =
     (if includeTimestamps
      then js ''Include timestamps in [HH:MM:SS] format at the beginning of each paragraph or when a new speaker starts. Ensure they are accurate to the media's timeline.''
      else js ''Do not include any timestamps.'')"

text \<open>The template literal of the text part, line by line.\<close>

definition instruction :: "jsstring \<Rightarrow> bool \<Rightarrow> jsstring" where
  "instruction mimeType includeTimestamps =
     js ''Carefully transcribe the following ''
       @ (if startsWith mimeType (js ''video'') then js ''video'' else js ''audio'')
       @ js '' file. '' @ nl
     @ js ''            Output the transcription as clear text. '' @ nl
     @ js ''            '' @ timestampInstruction includeTimestamps @ nl
     @ js ''            If there are multiple speakers, label them clearly (e.g., Speaker A, Speaker B).'' @ nl
     @ js ''            Provide ONLY the transcription text without any conversational filler or meta-commentary.''"

text \<open>
  The \<open>catch\<close> clause of \<open>transcribeMedia\<close>: what it throws, be it one of its own two
  errors or the \<open>TypeError\<close> of one of its operations. The \<open>console.error\<close> before it
  changes nothing the function returns. \<open>JSON.stringify\<close> is called only when the message
  is not truthy, the second \<open>includes\<close> only when the first answers no.
\<close>

definition catch_clause :: "engine \<Rightarrow> thrown \<Rightarrow> js_error" where
  "catch_clause E error =
     (case error of
        ThrownNullish \<Rightarrow> TypeError (type_error_message E)
      | Thrown error_message json \<Rightarrow>
          (case (if truthy error_message then Inr error_message else JSON_stringify E json) of
             Inl e \<Rightarrow> e
           | Inr errorStr \<Rightarrow>
               (case includes_method E errorStr (js ''Invalid video data'') of
                  Inl e \<Rightarrow> e
                | Inr invalidVideo \<Rightarrow>
                    (case (if invalidVideo then Inr True
                           else includes_method E errorStr (js ''INVALID_ARGUMENT'')) of
                       Inl e \<Rightarrow> e
                     | Inr rejected \<Rightarrow>
                         if rejected
                         then Error (js ''The model rejected this media format or the file size was too large for a single request. Try using a standard MP3 or a smaller MP4 clip.'')
                         else new_Error (or_value error_message
                                (Str (js ''An error occurred while communicating with the Gemini API.'')))))))"

text \<open>
  \<open>transcribeMedia\<close> up to its \<open>await\<close>: the three checks, then the request that is
  sent (constructing the client sends nothing). The parameter \<open>includeTimestamps\<close> is
  optional: \<open>None\<close> is the call without it. \<open>byteLength\<close> is the exact quotient: the
  product and the division by 4 are exact in double precision for every length a string
  can have.
\<close>

definition transcribeMedia_begin ::
  "jsstring option \<Rightarrow> jsstring \<Rightarrow> jsstring \<Rightarrow> bool option \<Rightarrow> js_error + request" where
  "transcribeMedia_begin env_API_KEY base64Data mimeType includeTimestampsArg =
     (let includeTimestamps = (case includeTimestampsArg of None \<Rightarrow> True | Some b \<Rightarrow> b) in
      if apiKey env_API_KEY = [] then
        Inl (Error (js ''API Key is missing. Please check your environment configuration.''))
      else if base64Data = [] then
        Inl (Error (js ''Media data is missing or corrupted. Please try re-uploading the file.''))
      else
        let byteLength = (real (length base64Data) * 3) / 4 in
        if byteLength > 500 * 1024 * 1024 then
          Inl (Error (js ''The file is too large for direct upload (limit: 500MB).''))
        else
          Inr \<lparr>req_model = js ''gemini-3-flash-preview'',
               req_mimeType = mimeType,
               req_data = base64Data,
               req_text = instruction mimeType includeTimestamps\<rparr>)"

text \<open>
  \<open>transcribeMedia\<close> from its \<open>await\<close> on. The \<open>throw\<close> on an empty text is inside the
  \<open>try\<close> block, so it goes through the \<open>catch\<close> clause as well.
\<close>

definition transcribeMedia_resume :: "engine \<Rightarrow> remote_outcome \<Rightarrow> js_error + jsstring" where
  "transcribeMedia_resume E outcome =
     (case outcome of
        Rejected error \<Rightarrow> Inl (catch_clause E error)
      | Resolved response_text \<Rightarrow>
          (let empty = Inl (catch_clause E (thrown_Error (js ''The AI returned an empty response. This can happen if the media content is not recognized or contains no speech.''))) in
           case response_text of
             None \<Rightarrow> empty
           | Some text \<Rightarrow> if text = [] then empty else Inr text))"

text \<open>
  The whole call against a remote service \<open>generateContent\<close>: the result, and the list of
  requests that went out.
\<close>

definition transcribeMedia ::
  "engine \<Rightarrow> jsstring option \<Rightarrow> (request \<Rightarrow> remote_outcome) \<Rightarrow> jsstring \<Rightarrow> jsstring
     \<Rightarrow> bool option \<Rightarrow> (js_error + jsstring) \<times> request list" where
  "transcribeMedia E env_API_KEY generateContent base64Data mimeType includeTimestampsArg =
     (case transcribeMedia_begin env_API_KEY base64Data mimeType includeTimestampsArg of
        Inl e \<Rightarrow> (Inl e, [])
      | Inr req \<Rightarrow> (transcribeMedia_resume E (generateContent req), [req]))"

section \<open>The orchestration layer: \<open>App\<close>\<close>

subsection \<open>The state of the component\<close>

datatype AppStatus = IDLE | PROCESSING | SUCCESS | ERROR

text \<open>Of a \<open>File\<close> the component reads the name, the MIME type and the size.\<close>

record File =
  file_name :: jsstring
  file_type :: jsstring
  file_size :: nat

record FileData =
  fd_file :: File
  fd_previewUrl :: jsstring
  fd_base64 :: jsstring

text \<open>
  The \<open>useState\<close> cells of \<open>App\<close> that its handlers read or write. The cells of the
  preview player (\<open>isPlaying\<close>, \<open>mediaElement\<close>) are read by \<open>togglePlay\<close> only and are
  left out.
\<close>

record App =
  status :: AppStatus
  isPreparing :: bool
  fileData :: "FileData option"
  transcription :: "jsstring option"
  errorMsg :: "jsstring option"
  includeTimestamps :: bool

definition initial_App :: App where
  "initial_App =
     \<lparr>status = IDLE, isPreparing = False, fileData = None, transcription = None,
      errorMsg = None, includeTimestamps = True\<rparr>"

text \<open>
  JavaScript runs a handler to its next \<open>await\<close> without interruption, so an
  \<open>async\<close> handler is one step up to the \<open>await\<close> and another when the awaited
  promise settles. Besides the component, the world holds the calls of
  \<open>handleFileSelect\<close> that wait for their reader (with the file and the URL they
  captured), the requests whose reply \<open>handleTranscribe\<close> waits for, and every request
  ever handed to the remote service.
\<close>

record world =
  app :: App
  reading :: "(File \<times> jsstring) list"
  in_flight :: "request list"
  sent :: "request list"

definition initial_world :: world where
  "initial_world = \<lparr>app = initial_App, reading = [], in_flight = [], sent = []\<rparr>"

subsection \<open>The handlers\<close>

text \<open>\<open>validateAndSelectFile\<close> of \<open>FileUpload\<close>: \<open>Inr ()\<close> is the call of \<open>onFileSelect\<close>.\<close>

definition validateAndSelectFile :: "File \<Rightarrow> jsstring + unit" where
  "validateAndSelectFile f =
     (let isAudio = startsWith (file_type f) (js ''audio/'');
          isMp4 = (file_type f = js ''video/mp4'') in
      if \<not> isAudio \<and> \<not> isMp4 then Inl (js ''Please upload a valid audio file or MP4 video.'')
      else if file_size f > 500 * 1024 * 1024
        then Inl (js ''File is too large. Please upload a file smaller than 500MB.'')
      else Inr ())"

text \<open>\<open>handleFileSelect\<close> up to \<open>await fileToBase64(file)\<close>; \<open>previewUrl\<close> is what
  \<open>URL.createObjectURL\<close> returned.\<close>

definition handleFileSelect :: "File \<Rightarrow> jsstring \<Rightarrow> world \<Rightarrow> world" where
  "handleFileSelect f previewUrl w =
     w\<lparr>app := (app w)\<lparr>status := IDLE, isPreparing := True, errorMsg := None,
                       transcription := None, fileData := None\<rparr>,
       reading := reading w @ [(f, previewUrl)]\<rparr>"

text \<open>\<open>handleFileSelect\<close> from the \<open>await\<close> on, with the \<open>catch\<close> and \<open>finally\<close> clauses.\<close>

definition handleFileSelect_resume :: "File \<Rightarrow> jsstring \<Rightarrow> js_error + jsstring \<Rightarrow> App \<Rightarrow> App" where
  "handleFileSelect_resume f previewUrl settled a =
     (case settled of
        Inr base64 \<Rightarrow>
          a\<lparr>fileData := Some \<lparr>fd_file = f, fd_previewUrl = previewUrl, fd_base64 = base64\<rparr>\<rparr>
      | Inl err \<Rightarrow>
          a\<lparr>errorMsg := Some (or_else (Some (message err))
                               (js ''Failed to process file. Please try another one.''))\<rparr>)
     \<lparr>isPreparing := False\<rparr>"

text \<open>\<open>handleTranscribe\<close> from the \<open>await\<close> on.\<close>

definition handleTranscribe_resume :: "js_error + jsstring \<Rightarrow> App \<Rightarrow> App" where
  "handleTranscribe_resume settled a =
     (case settled of
        Inr result \<Rightarrow> a\<lparr>transcription := Some result, status := SUCCESS\<rparr>
      | Inl err \<Rightarrow>
          a\<lparr>status := ERROR,
            errorMsg := Some (or_else (Some (message err))
                               (js ''An unexpected error occurred during transcription.''))\<rparr>)"

text \<open>
  \<open>handleTranscribe\<close> up to the \<open>await\<close>. When \<open>transcribeMedia\<close> throws in one of its
  checks, its promise is rejected at once and the \<open>catch\<close> clause runs before any other
  event; otherwise the request goes out and the handler waits for the reply.
\<close>

definition handleTranscribe :: "jsstring option \<Rightarrow> world \<Rightarrow> world" where
  "handleTranscribe env_API_KEY w =
     (let a = app w;
          notReady = w\<lparr>app := a\<lparr>errorMsg :=
            Some (js ''File data is not ready. Please try re-selecting the file.'')\<rparr>\<rparr> in
      case fileData a of
        None \<Rightarrow> notReady
      | Some fd \<Rightarrow>
          if fd_base64 fd = [] then notReady
          else
            let a' = a\<lparr>status := PROCESSING, errorMsg := None\<rparr> in
            case transcribeMedia_begin env_API_KEY (fd_base64 fd) (file_type (fd_file fd))
                   (Some (includeTimestamps a)) of
              Inl err \<Rightarrow> w\<lparr>app := handleTranscribe_resume (Inl err) a'\<rparr>
            | Inr req \<Rightarrow> w\<lparr>app := a', in_flight := in_flight w @ [req], sent := sent w @ [req]\<rparr>)"

definition resetApp :: "App \<Rightarrow> App" where
  "resetApp a =
     a\<lparr>fileData := None, transcription := None, status := IDLE, isPreparing := False,
       errorMsg := None\<rparr>"

subsection \<open>Events\<close>

text \<open>
  What can happen to the component: the upload control hands over a file, a reader
  finishes, the transcription button, the reply to a request, one of the two reset
  buttons, the timestamp checkbox.
\<close>

datatype event =
    SelectFile File jsstring
  | FileRead nat read_outcome
  | ClickTranscribe
  | Reply nat remote_outcome
  | ClickReset
  | ToggleTimestamps

definition remove_nth :: "nat \<Rightarrow> 'a list \<Rightarrow> 'a list" where
  "remove_nth i xs = take i xs @ drop (Suc i) xs"

fun step :: "engine \<Rightarrow> jsstring option \<Rightarrow> world \<Rightarrow> event \<Rightarrow> world" where
  "step E env_API_KEY w (SelectFile f previewUrl) = handleFileSelect f previewUrl w"
| "step E env_API_KEY w (FileRead i r) =
     (if i < length (reading w)
      then w\<lparr>app := handleFileSelect_resume (fst (reading w ! i)) (snd (reading w ! i))
                        (fileToBase64 E r) (app w),
             reading := remove_nth i (reading w)\<rparr>
      else w)"
| "step E env_API_KEY w ClickTranscribe = handleTranscribe env_API_KEY w"
| "step E env_API_KEY w (Reply i outcome) =
     (if i < length (in_flight w)
      then w\<lparr>app := handleTranscribe_resume (transcribeMedia_resume E outcome) (app w),
             in_flight := remove_nth i (in_flight w)\<rparr>
      else w)"
| "step E env_API_KEY w ClickReset = w\<lparr>app := resetApp (app w)\<rparr>"
| "step E env_API_KEY w ToggleTimestamps =
     w\<lparr>app := (app w)\<lparr>includeTimestamps := \<not> includeTimestamps (app w)\<rparr>\<rparr>"

text \<open>
  What the rendered page offers in a state: the upload control is rendered when
  \<open>!fileData && !isPreparing\<close> and calls \<open>onFileSelect\<close> for a file it accepts; the file
  card, with the first reset button, when \<open>fileData\<close>; the second reset button when
  \<open>transcription\<close>; the transcription button is without handler in \<open>PROCESSING\<close> and
  disabled in \<open>SUCCESS\<close>, as is the checkbox.
\<close>

fun offered :: "world \<Rightarrow> event \<Rightarrow> bool" where
  "offered w (SelectFile f previewUrl) =
     (fileData (app w) = None \<and> \<not> isPreparing (app w) \<and> validateAndSelectFile f = Inr ())"
| "offered w (FileRead i r) = (i < length (reading w))"
| "offered w ClickTranscribe =
     (fileData (app w) \<noteq> None \<and> status (app w) \<noteq> PROCESSING \<and> status (app w) \<noteq> SUCCESS)"
| "offered w (Reply i outcome) = (i < length (in_flight w))"
| "offered w ClickReset =
     (fileData (app w) \<noteq> None \<or> or_else (transcription (app w)) [] \<noteq> [])"
| "offered w ToggleTimestamps =
     (fileData (app w) \<noteq> None \<and> status (app w) \<noteq> PROCESSING \<and> status (app w) \<noteq> SUCCESS)"

text \<open>A sequence of events, and whether the page offers each of them when its turn comes.\<close>

fun run :: "engine \<Rightarrow> jsstring option \<Rightarrow> world \<Rightarrow> event list \<Rightarrow> world" where
  "run E env_API_KEY w [] = w"
| "run E env_API_KEY w (ev # evs) = run E env_API_KEY (step E env_API_KEY w ev) evs"

fun offered_all :: "engine \<Rightarrow> jsstring option \<Rightarrow> world \<Rightarrow> event list \<Rightarrow> bool" where
  "offered_all E env_API_KEY w [] = True"
| "offered_all E env_API_KEY w (ev # evs) =
     (offered w ev \<and> offered_all E env_API_KEY (step E env_API_KEY w ev) evs)"

text \<open>The worlds the page can get into.\<close>

inductive reachable :: "engine \<Rightarrow> jsstring option \<Rightarrow> world \<Rightarrow> bool" for E env_API_KEY where
  reachable_initial: "reachable E env_API_KEY initial_world"
| reachable_step:
    "reachable E env_API_KEY w \<Longrightarrow> offered w ev \<Longrightarrow>
     reachable E env_API_KEY (step E env_API_KEY w ev)"

section \<open>Properties of the encoder\<close>

subsection \<open>Decoding undoes encoding\<close>













subsection \<open>The chunk loop\<close>

text \<open>
  When the loop returns a string, it is the whole buffer, byte by byte; it does so when
  the engine takes the chunks as arguments and holds the string, and the first chunk
  already fails when the engine does not take it.
\<close>

lemma drop_chunk:
  "drop i bytes = subarray bytes i (i + chunk_size) @ drop (i + chunk_size) bytes"
  unfolding subarray_def
  by (metis add.commute append_take_drop_id drop_drop drop_take take_drop)

lemma length_subarray: "length (subarray xs b e) = min (length xs) e - b"
  by (simp add: subarray_def)

lemma chunk_loop_Inr:
  "chunk_loop E bytes i binary = Inr s \<Longrightarrow> s = binary @ fromCharCode (drop i bytes)"
proof (induction E bytes i binary rule: chunk_loop.induct)
  case (1 E bytes i binary)
  show ?case
  proof (cases "i < length bytes")
    case True
    from "1.prems" True obtain c b' where
      c: "fromCharCode_apply E (subarray bytes i (i + chunk_size)) = Inr c"
      and b: "append_str E binary c = Inr b'"
      and r: "chunk_loop E bytes (i + chunk_size) b' = Inr s"
      by (subst (asm) chunk_loop.simps) (auto split: sum.splits)
    from c have c': "c = fromCharCode (subarray bytes i (i + chunk_size))"
      by (auto simp: fromCharCode_apply_def split: if_splits)
    from b have b': "b' = binary @ c"
      by (auto simp: append_str_def split: if_splits)
    from "1.IH" [OF True c b r] show ?thesis
      unfolding b' c' by (subst drop_chunk [of i]) (simp add: fromCharCode_def)
  next
    case False
    with "1.prems" show ?thesis
      by (subst (asm) chunk_loop.simps) (simp add: fromCharCode_def)
  qed
qed

lemma chunk_loop_resolves:
  "min (length bytes) chunk_size \<le> max_arguments E \<Longrightarrow>
   length binary + (length bytes - i) \<le> max_string_length E \<Longrightarrow>
   chunk_loop E bytes i binary = Inr (binary @ fromCharCode (drop i bytes))"
proof (induction E bytes i binary rule: chunk_loop.induct)
  case (1 E bytes i binary)
  show ?case
  proof (cases "i < length bytes")
    case True
    let ?chunk = "subarray bytes i (i + chunk_size)"
    have len: "length ?chunk = min (length bytes - i) chunk_size"
      unfolding length_subarray by arith
    have bounds: "length ?chunk \<le> max_arguments E" "length ?chunk \<le> max_string_length E"
      "length binary + length ?chunk \<le> max_string_length E"
      "length binary + length ?chunk + (length bytes - (i + chunk_size)) \<le> max_string_length E"
      using "1.prems" unfolding len by arith+
    have c: "fromCharCode_apply E ?chunk = Inr (fromCharCode ?chunk)"
      using bounds by (simp add: fromCharCode_apply_def)
    have b: "append_str E binary (fromCharCode ?chunk) = Inr (binary @ fromCharCode ?chunk)"
      using bounds by (simp add: append_str_def fromCharCode_def)
    have "length (binary @ fromCharCode ?chunk) + (length bytes - (i + chunk_size))
        \<le> max_string_length E"
      using bounds by (simp add: fromCharCode_def)
    from "1.IH" [OF True c b "1.prems"(1) this] True c b show ?thesis
      by (subst chunk_loop.simps, subst drop_chunk [of i]) (simp add: fromCharCode_def)
  next
    case False
    then show ?thesis
      by (subst chunk_loop.simps) (simp add: fromCharCode_def)
  qed
qed

lemma chunk_loop_arguments:
  assumes "max_arguments E < min (length bytes) chunk_size"
  shows "chunk_loop E bytes 0 [] = Inl RangeError"
proof -
  have "length (subarray bytes 0 (0 + chunk_size)) = min (length bytes) chunk_size"
    by (simp add: length_subarray)
  with assms have "fromCharCode_apply E (subarray bytes 0 (0 + chunk_size)) = Inl RangeError"
    by (simp add: fromCharCode_apply_def)
  moreover from assms have "0 < length bytes" by (cases bytes) simp_all
  ultimately show ?thesis
    by (subst chunk_loop.simps) simp
qed

lemma unat_fromCharCode: "map unat (fromCharCode bytes) = map unat bytes"
proof -
  have "unat (ucast b :: jschar) = unat b" for b :: byte
  proof -
    have "unat b < 2 ^ 16"
      using unsigned_less [of b, where 'a = nat] by simp
    then show ?thesis
      by (simp add: unsigned_ucast_eq take_bit_nat_eq_self)
  qed
  then show ?thesis by (simp add: fromCharCode_def)
qed

lemma bytes_below_256: "list_all (\<lambda>x. x < 256) (map unat (bytes :: byte list))"
proof -
  have "unat b < 256" for b :: byte
    using unsigned_less [of b, where 'a = nat] by simp
  then show ?thesis by (simp add: list_all_iff)
qed

lemma length_base64_encode: "length (base64_encode bs) = (length bs + 2) div 3 * 4"
proof (induction bs rule: base64_encode.induct)
  case (4 a b c rest)
  have "(length (a # b # c # rest) + 2) div 3 = Suc ((length rest + 2) div 3)"
    by simp
  with 4 show ?case by simp
qed simp_all

lemma btoa_fromCharCode:
  "btoa E (fromCharCode bytes) =
     (if max_string_length E < (length bytes + 2) div 3 * 4 then Inl RangeError
      else Inr (base64_encode (map unat bytes)))"
proof -
  have "\<not> list_ex (\<lambda>c. 255 < unat c) (fromCharCode bytes)"
  proof -
    have "list_all (\<lambda>x. x < 256) (map unat (fromCharCode bytes))"
      unfolding unat_fromCharCode by (rule bytes_below_256)
    then show ?thesis
      by (auto simp: list_all_iff list_ex_iff)
  qed
  then show ?thesis
    by (simp add: btoa_def unat_fromCharCode length_base64_encode)
qed

text \<open>What \<open>fileToBase64\<close> does with a buffer that was read, on every engine.\<close>

lemma fileToBase64_loaded:
  "fileToBase64 E (OnLoad (Some bytes)) =
     (if min (length bytes) chunk_size \<le> max_arguments E
         \<and> (length bytes + 2) div 3 * 4 \<le> max_string_length E
      then Inr (base64_encode (map unat bytes))
      else Inl (Error (js ''Failed to convert file to Base64. The file may be too large for browser memory limits.'')))"
proof (cases "min (length bytes) chunk_size \<le> max_arguments E")
  case args: True
  show ?thesis
  proof (cases "(length bytes + 2) div 3 * 4 \<le> max_string_length E")
    case True
    then have "length [] + (length bytes - 0) \<le> max_string_length E"
      by simp
    from chunk_loop_resolves [OF args this] args True show ?thesis
      by (simp add: fileToBase64_def btoa_fromCharCode)
  next
    case False
    show ?thesis
    proof (cases "chunk_loop E bytes 0 []")
      case (Inl e)
      with False show ?thesis by (simp add: fileToBase64_def)
    next
      case (Inr binary)
      from chunk_loop_Inr [OF this] have "binary = fromCharCode bytes" by simp
      with Inr False show ?thesis
        by (simp add: fileToBase64_def btoa_fromCharCode)
    qed
  qed
next
  case False
  then have "max_arguments E < min (length bytes) chunk_size"
    by arith
  then have "chunk_loop E bytes 0 [] = Inl RangeError"
    by (rule chunk_loop_arguments)
  with False show ?thesis by (simp add: fileToBase64_def)
qed



subsection \<open>Round trip and length\<close>








section \<open>Properties of strings\<close>

lemma startsWith_Nil: "startsWith s [] = True" "startsWith [] (y # ys) = False"
  by (simp_all add: startsWith_def)

lemma startsWith_Cons: "startsWith (x # xs) (y # ys) = (if x = y then startsWith xs ys else False)"
  by (simp add: startsWith_def)

lemma includes_str_Cons:
  "includes_str (x # xs) (y # ys) =
     (if x = y then (if startsWith xs ys then True else includes_str xs (y # ys))
      else includes_str xs (y # ys))"
  by (simp add: startsWith_Cons)

lemma includes_str_Nil: "includes_str [] (y # ys) = False"
  by simp

lemmas scan = startsWith_Nil startsWith_Cons includes_str_Cons includes_str_Nil

lemma inj_js_char: "inj (\<lambda>c. (of_nat (of_char c) :: jschar))"
proof (rule injI)
  fix c d :: char
  have small: "take_bit 16 (of_char e :: nat) = of_char e" for e :: char
    by (rule take_bit_nat_eq_self) (rule less_trans [OF nat_of_char_less_256], simp)
  assume "(of_nat (of_char c) :: jschar) = of_nat (of_char d)"
  then have "take_bit 16 (of_char c :: nat) = take_bit 16 (of_char d :: nat)"
    by (simp add: word_of_nat_eq_iff)
  then have "(of_char c :: nat) = of_char d"
    by (simp only: small)
  then show "c = d" by simp
qed

lemma js_eq_iff: "js s = js t \<longleftrightarrow> s = t"
  unfolding js_def by (rule inj_map_eq_map [OF inj_js_char])

lemma js_append: "js s @ js t = js (s @ t)"
  by (simp add: js_def)

lemma js_take: "take n (js s) = js (take n s)"
  by (simp add: js_def take_map)

lemma length_js: "length (js s) = length s"
  by (simp add: js_def)

lemma startsWith_js: "startsWith (js s) (js p) = startsWith s p"
  by (simp add: startsWith_def js_take length_js js_eq_iff)



lemma nl_js: "nl = js [CHR 0x0A]"
  by (simp add: nl_def js_def)


lemma includes_str_iff: "includes_str s p \<longleftrightarrow> (\<exists>a b. s = a @ p @ b)"
proof (induction s)
  case Nil
  then show ?case by auto
next
  case (Cons x xs)
  have "startsWith (x # xs) p \<longleftrightarrow> (\<exists>b. x # xs = p @ b)"
    unfolding startsWith_def
    by (metis append_eq_conv_conj)
  moreover have "(\<exists>a b. x # xs = a @ p @ b) \<longleftrightarrow> (\<exists>b. x # xs = p @ b) \<or> (\<exists>a b. xs = a @ p @ b)"
  proof
    assume "\<exists>a b. x # xs = a @ p @ b"
    then obtain a b where ab: "x # xs = a @ p @ b" by blast
    show "(\<exists>b. x # xs = p @ b) \<or> (\<exists>a b. xs = a @ p @ b)"
    proof (cases a)
      case Nil
      with ab show ?thesis by auto
    next
      case (Cons y ys)
      with ab have "xs = ys @ p @ b" by simp
      then show ?thesis by blast
    qed
  next
    assume "(\<exists>b. x # xs = p @ b) \<or> (\<exists>a b. xs = a @ p @ b)"
    then show "\<exists>a b. x # xs = a @ p @ b"
    proof
      assume "\<exists>b. x # xs = p @ b"
      then obtain b where "x # xs = [] @ p @ b" by auto
      then show ?thesis by blast
    next
      assume "\<exists>a b. xs = a @ p @ b"
      then obtain a b where "x # xs = (x # a) @ p @ b" by auto
      then show ?thesis by blast
    qed
  qed
  ultimately show ?case using Cons by simp
qed

lemma includes_str_appendI1: "includes_str s p \<Longrightarrow> includes_str (s @ t) p"
  unfolding includes_str_iff by (metis append.assoc)

lemma includes_str_appendI2: "includes_str t p \<Longrightarrow> includes_str (s @ t) p"
  unfolding includes_str_iff by (metis append.assoc)

lemma includes_str_self: "includes_str p p"
  unfolding includes_str_iff by (metis append_Nil append_Nil2)

lemma not_includes_str: "c \<in> set p \<Longrightarrow> c \<notin> set s \<Longrightarrow> \<not> includes_str s p"
  unfolding includes_str_iff by auto



lemma D_absent: "68 \<notin> set (instruction mimeType True)"
  by (simp add: instruction_def timestampInstruction_def nl_def js_def)

lemma bracket_absent: "91 \<notin> set (instruction mimeType False)"
  by (simp add: instruction_def timestampInstruction_def nl_def js_def)

lemma D_present: "68 \<in> set (js ''Do not include any timestamps.'')"
  by (simp add: js_def)

lemma bracket_present: "91 \<in> set (js ''Include timestamps in [HH:MM:SS] format at the beginning of each paragraph or when a new speaker starts. Ensure they are accurate to the media's timeline.'')"
  by (simp add: js_def)

lemma instruction_includes_timestampInstruction:
  "includes_str (instruction mimeType ts) (timestampInstruction ts)"
  unfolding instruction_def
  by (fast intro: includes_str_appendI1 includes_str_appendI2 includes_str_self)

lemma startsWith_append_iff: "length p \<le> length a \<Longrightarrow> startsWith (a @ b) p = startsWith a p"
  by (simp add: startsWith_def)

lemma instruction_head:
  "\<exists>rest. instruction mimeType ts =
     (js ''Carefully transcribe the following ''
       @ (if startsWith mimeType (js ''video'') then js ''video'' else js ''audio'')
       @ js '' file. '') @ rest"
  unfolding instruction_def by (simp only: append_assoc) blast

lemma instruction_kind:
  "startsWith (instruction mimeType ts) (js ''Carefully transcribe the following video file.'')
     \<longleftrightarrow> startsWith mimeType (js ''video'')"
  "startsWith (instruction mimeType ts) (js ''Carefully transcribe the following audio file.'')
     \<longleftrightarrow> \<not> startsWith mimeType (js ''video'')"
proof -
  obtain rest where r: "instruction mimeType ts =
     (js ''Carefully transcribe the following ''
       @ (if startsWith mimeType (js ''video'') then js ''video'' else js ''audio'')
       @ js '' file. '') @ rest"
    using instruction_head by blast
  have len: "length (js ''Carefully transcribe the following video file.'') \<le>
      length (js ''Carefully transcribe the following ''
       @ (if startsWith mimeType (js ''video'') then js ''video'' else js ''audio'')
       @ js '' file. '')"
    "length (js ''Carefully transcribe the following audio file.'') \<le>
      length (js ''Carefully transcribe the following ''
       @ (if startsWith mimeType (js ''video'') then js ''video'' else js ''audio'')
       @ js '' file. '')"
    by (simp_all add: length_js)
  show "startsWith (instruction mimeType ts) (js ''Carefully transcribe the following video file.'')
     \<longleftrightarrow> startsWith mimeType (js ''video'')"
    unfolding r startsWith_append_iff [OF len(1)]
    by (simp add: js_append startsWith_js scan)
  show "startsWith (instruction mimeType ts) (js ''Carefully transcribe the following audio file.'')
     \<longleftrightarrow> \<not> startsWith mimeType (js ''video'')"
    unfolding r startsWith_append_iff [OF len(2)]
    by (simp add: js_append startsWith_js scan)
qed



section \<open>Properties of the transcription client\<close>

lemma not_empty_js: "js ''k'' \<noteq> []"
  by (simp add: js_def)

text \<open>
  Claim C3. With no credential configured (the environment variable is absent or empty),
  \<open>transcribeMedia\<close> rejects with the missing-API-key error for every payload, MIME type
  and timestamp flag, and no request goes out.
\<close>

theorem transcribeMedia_no_credential:
  assumes "env_API_KEY = None \<or> env_API_KEY = Some []"
  shows "transcribeMedia E env_API_KEY generateContent base64Data mimeType ts =
    (Inl (Error (js ''API Key is missing. Please check your environment configuration.'')), [])"
  using assms
  by (auto simp: transcribeMedia_def transcribeMedia_begin_def apiKey_def or_else_def)

theorem transcribeMedia_no_credential_witness:
  "transcribeMedia \<lparr>max_string_length = 536870888, max_arguments = 65536, type_error_message = js ''Cannot read properties of null''\<rparr>
      None (\<lambda>req. Resolved (Some (js ''Hello world''))) (js ''TWFu'') (js ''audio/mp3'') (Some True) =
    (Inl (Error (js ''API Key is missing. Please check your environment configuration.'')), [])"
  using transcribeMedia_no_credential [of None] by simp

text \<open>
  Claim C4. With a credential configured, an empty payload is rejected with the
  missing-data error, and a payload whose implied size \<open>length * 3 / 4\<close> exceeds
  500 MiB with the too-large error; in both cases no request goes out. The size is the
  exact quotient, as in the source: a length is far below \<open>2^53\<close> and the division is
  by a power of two.
\<close>

theorem transcribeMedia_invalid_input:
  assumes "apiKey env_API_KEY \<noteq> []"
  shows "(base64Data = [] \<longrightarrow>
      transcribeMedia E env_API_KEY generateContent base64Data mimeType ts =
        (Inl (Error (js ''Media data is missing or corrupted. Please try re-uploading the file.'')), []))
    \<and> (real (length base64Data) * 3 / 4 > 500 * 1024 * 1024 \<longrightarrow>
      transcribeMedia E env_API_KEY generateContent base64Data mimeType ts =
        (Inl (Error (js ''The file is too large for direct upload (limit: 500MB).'')), []))"
  using assms
  by (auto simp: transcribeMedia_def transcribeMedia_begin_def)

theorem transcribeMedia_invalid_input_witness:
  "apiKey (Some (js ''k'')) \<noteq> []
   \<and> transcribeMedia \<lparr>max_string_length = 1073741822, max_arguments = 65536, type_error_message = js ''Cannot read properties of null''\<rparr>
      (Some (js ''k'')) (\<lambda>req. Resolved (Some (js ''Hello world''))) [] (js ''audio/mp3'') (Some True) =
        (Inl (Error (js ''Media data is missing or corrupted. Please try re-uploading the file.'')), [])
   \<and> real (length (replicate 699050668 (65 :: jschar))) * 3 / 4 > 500 * 1024 * 1024
   \<and> transcribeMedia \<lparr>max_string_length = 1073741822, max_arguments = 65536, type_error_message = js ''Cannot read properties of null''\<rparr>
      (Some (js ''k'')) (\<lambda>req. Resolved (Some (js ''Hello world'')))
        (replicate 699050668 65) (js ''audio/mp3'') (Some True) =
        (Inl (Error (js ''The file is too large for direct upload (limit: 500MB).'')), [])"
proof -
  have k: "apiKey (Some (js ''k'')) \<noteq> []"
    by (simp add: apiKey_def or_else_def js_def)
  have big: "real (length (replicate 699050668 (65 :: jschar))) * 3 / 4 > 500 * 1024 * 1024"
    by simp
  from transcribeMedia_invalid_input [OF k, of "[]"]
    transcribeMedia_invalid_input [OF k, of "replicate 699050668 65"] k big
  show ?thesis by simp
qed


lemma transcribeMedia_sends:
  "transcribeMedia_begin env_API_KEY base64Data mimeType ts = Inr req \<Longrightarrow>
   transcribeMedia E env_API_KEY generateContent base64Data mimeType ts =
     (transcribeMedia_resume E (generateContent req), [req])"
  by (simp add: transcribeMedia_def)

lemma transcribeMedia_begin_passes:
  "apiKey env_API_KEY \<noteq> [] \<Longrightarrow> base64Data \<noteq> [] \<Longrightarrow>
   real (length base64Data) * 3 / 4 \<le> 500 * 1024 * 1024 \<Longrightarrow>
   transcribeMedia_begin env_API_KEY base64Data mimeType ts =
     Inr \<lparr>req_model = js ''gemini-3-flash-preview'', req_mimeType = mimeType,
          req_data = base64Data,
          req_text = instruction mimeType (case ts of None \<Rightarrow> True | Some b \<Rightarrow> b)\<rparr>"
  by (simp add: transcribeMedia_begin_def)

lemma example_passes:
  "apiKey (Some (js ''k'')) \<noteq> []" "js ''TWFu'' \<noteq> []"
  "real (length (js ''TWFu'')) * 3 / 4 \<le> 500 * 1024 * 1024"
  by (simp_all add: apiKey_def or_else_def js_def)

lemma example_begin:
  "transcribeMedia_begin (Some (js ''k'')) (js ''TWFu'') (js ''audio/mp3'') (Some True) =
     Inr \<lparr>req_model = js ''gemini-3-flash-preview'', req_mimeType = js ''audio/mp3'',
          req_data = js ''TWFu'', req_text = instruction (js ''audio/mp3'') True\<rparr>"
  using transcribeMedia_begin_passes [OF example_passes, of "js ''audio/mp3''" "Some True"] by simp

lemma messages_differ:
  "js ''The AI returned an empty response. This can happen if the media content is not recognized or contains no speech.'' \<notin>
     {js ''API Key is missing. Please check your environment configuration.'',
      js ''Media data is missing or corrupted. Please try re-uploading the file.'',
      js ''The file is too large for direct upload (limit: 500MB).'',
      js ''The model rejected this media format or the file size was too large for a single request. Try using a standard MP3 or a smaller MP4 clip.'',
      js ''An error occurred while communicating with the Gemini API.''}"
  "js ''The AI returned an empty response. This can happen if the media content is not recognized or contains no speech.'' \<noteq> []"
  by (simp_all add: js_eq_iff) (simp add: js_def)

lemma others_differ:
  "js ''The model rejected this media format or the file size was too large for a single request. Try using a standard MP3 or a smaller MP4 clip.'' \<noteq> js ''The AI returned an empty response. This can happen if the media content is not recognized or contains no speech.''"
  "js ''An error occurred while communicating with the Gemini API.'' \<noteq> js ''The AI returned an empty response. This can happen if the media content is not recognized or contains no speech.''"
  by (simp_all add: js_eq_iff)

lemma empty_response_unmarked:
  "\<not> includes_str (js ''The AI returned an empty response. This can happen if the media content is not recognized or contains no speech.'') (js ''Invalid video data'')"
  "\<not> includes_str (js ''The AI returned an empty response. This can happen if the media content is not recognized or contains no speech.'') (js ''INVALID_ARGUMENT'')"
proof -
  show "\<not> includes_str (js ''The AI returned an empty response. This can happen if the media content is not recognized or contains no speech.'') (js ''Invalid video data'')"
    by (rule not_includes_str [where c = 118]) (simp_all add: js_def)
  show "\<not> includes_str (js ''The AI returned an empty response. This can happen if the media content is not recognized or contains no speech.'') (js ''INVALID_ARGUMENT'')"
    by (rule not_includes_str [where c = 95]) (simp_all add: js_def)
qed

lemma catch_clause_string:
  "m \<noteq> [] \<Longrightarrow>
   catch_clause E (Thrown (Str m) j) =
     Error (if includes_str m (js ''Invalid video data'') \<or> includes_str m (js ''INVALID_ARGUMENT'')
            then js ''The model rejected this media format or the file size was too large for a single request. Try using a standard MP3 or a smaller MP4 clip.''
            else m)"
  by (simp add: catch_clause_def or_value_def del: includes_str.simps)

lemma catch_clause_json:
  "\<not> truthy v \<Longrightarrow>
   catch_clause E (Thrown v (JsonString s)) =
     Error (if includes_str s (js ''Invalid video data'') \<or> includes_str s (js ''INVALID_ARGUMENT'')
            then js ''The model rejected this media format or the file size was too large for a single request. Try using a standard MP3 or a smaller MP4 clip.''
            else js ''An error occurred while communicating with the Gemini API.'')"
  by (simp add: catch_clause_def or_value_def del: includes_str.simps)

lemma catch_clause_TypeError:
  "catch_clause E ThrownNullish = TypeError (type_error_message E)"
  "\<not> truthy v \<Longrightarrow> catch_clause E (Thrown v JsonUndefined) = TypeError (type_error_message E)"
  "\<not> truthy v \<Longrightarrow> catch_clause E (Thrown v JsonThrows) = TypeError (type_error_message E)"
  "catch_clause E (Thrown (Opaque True None c) j) = TypeError (type_error_message E)"
  by (simp_all add: catch_clause_def)


lemma catch_clause_empty_response:
  "catch_clause E (thrown_Error (js ''The AI returned an empty response. This can happen if the media content is not recognized or contains no speech.'')) =
   Error (js ''The AI returned an empty response. This can happen if the media content is not recognized or contains no speech.'')"
  using empty_response_unmarked messages_differ(2)
  by (simp add: thrown_Error_def catch_clause_string del: includes_str.simps)

lemma transcribeMedia_resume_Inr: "transcribeMedia_resume E outcome = Inr t \<Longrightarrow> t \<noteq> []"
  by (auto simp: transcribeMedia_resume_def Let_def split: remote_outcome.splits option.splits if_splits)

text \<open>
  Claim C5, as amended. When the request went out and the response has no text or an
  empty text, \<open>transcribeMedia\<close> does not resolve: it rejects with the error whose message
  is the fixed text about an empty response. Errors have no kind beyond their message.
  That text is none of the other messages that \<open>transcribeMedia\<close> composes by itself; a
  remote failure that carries a string as its message is surfaced with another error when
  its message is another text, and with the very same error when its message is that text.
  Whenever \<open>transcribeMedia\<close> resolves, the text is not empty.
\<close>

theorem transcribeMedia_empty_response:
  "(transcribeMedia_begin env_API_KEY base64Data mimeType ts = Inr req
      \<and> (generateContent req = Resolved None \<or> generateContent req = Resolved (Some []))
    \<longrightarrow> transcribeMedia E env_API_KEY generateContent base64Data mimeType ts =
          (Inl (Error (js ''The AI returned an empty response. This can happen if the media content is not recognized or contains no speech.'')), [req]))
   \<and> (fst (transcribeMedia E env_API_KEY generateContent base64Data mimeType ts) = Inr t \<longrightarrow> t \<noteq> [])
   \<and> js ''The AI returned an empty response. This can happen if the media content is not recognized or contains no speech.'' \<notin>
       {js ''API Key is missing. Please check your environment configuration.'',
        js ''Media data is missing or corrupted. Please try re-uploading the file.'',
        js ''The file is too large for direct upload (limit: 500MB).'',
        js ''The model rejected this media format or the file size was too large for a single request. Try using a standard MP3 or a smaller MP4 clip.'',
        js ''An error occurred while communicating with the Gemini API.''}
   \<and> (transcribeMedia_begin env_API_KEY base64Data mimeType ts = Inr req
      \<and> generateContent req = Rejected (Thrown (Str m) j)
      \<and> m \<noteq> js ''The AI returned an empty response. This can happen if the media content is not recognized or contains no speech.''
    \<longrightarrow> fst (transcribeMedia E env_API_KEY generateContent base64Data mimeType ts) \<noteq>
          Inl (Error (js ''The AI returned an empty response. This can happen if the media content is not recognized or contains no speech.'')))
   \<and> (transcribeMedia_begin env_API_KEY base64Data mimeType ts = Inr req
      \<and> generateContent req = Rejected (Thrown (Str (js ''The AI returned an empty response. This can happen if the media content is not recognized or contains no speech.'')) j)
    \<longrightarrow> transcribeMedia E env_API_KEY generateContent base64Data mimeType ts =
          (Inl (Error (js ''The AI returned an empty response. This can happen if the media content is not recognized or contains no speech.'')), [req]))"
proof (intro conjI impI)
  assume a: "transcribeMedia_begin env_API_KEY base64Data mimeType ts = Inr req
      \<and> (generateContent req = Resolved None \<or> generateContent req = Resolved (Some []))"
  then have "transcribeMedia_resume E (generateContent req) =
      Inl (Error (js ''The AI returned an empty response. This can happen if the media content is not recognized or contains no speech.''))"
    by (auto simp: transcribeMedia_resume_def catch_clause_empty_response)
  with a show "transcribeMedia E env_API_KEY generateContent base64Data mimeType ts =
          (Inl (Error (js ''The AI returned an empty response. This can happen if the media content is not recognized or contains no speech.'')), [req])"
    by (simp add: transcribeMedia_sends)
next
  assume "fst (transcribeMedia E env_API_KEY generateContent base64Data mimeType ts) = Inr t"
  then show "t \<noteq> []"
    by (auto simp: transcribeMedia_def dest: transcribeMedia_resume_Inr split: sum.splits)
next
  show "js ''The AI returned an empty response. This can happen if the media content is not recognized or contains no speech.'' \<notin>
       {js ''API Key is missing. Please check your environment configuration.'',
        js ''Media data is missing or corrupted. Please try re-uploading the file.'',
        js ''The file is too large for direct upload (limit: 500MB).'',
        js ''The model rejected this media format or the file size was too large for a single request. Try using a standard MP3 or a smaller MP4 clip.'',
        js ''An error occurred while communicating with the Gemini API.''}"
    by (rule messages_differ)
next
  assume a: "transcribeMedia_begin env_API_KEY base64Data mimeType ts = Inr req
      \<and> generateContent req = Rejected (Thrown (Str m) j)
      \<and> m \<noteq> js ''The AI returned an empty response. This can happen if the media content is not recognized or contains no speech.''"
  have "catch_clause E (Thrown (Str m) j) \<noteq> Error (js ''The AI returned an empty response. This can happen if the media content is not recognized or contains no speech.'')"
  proof (cases "m = []")
    case True
    then have "\<not> truthy (Str m)" by simp
    then show ?thesis
      using others_differ
      by (cases j) (simp_all add: catch_clause_json catch_clause_TypeError del: includes_str.simps)
  next
    case False
    with a others_differ show ?thesis
      by (simp add: catch_clause_string del: includes_str.simps)
  qed
  with a show "fst (transcribeMedia E env_API_KEY generateContent base64Data mimeType ts) \<noteq>
          Inl (Error (js ''The AI returned an empty response. This can happen if the media content is not recognized or contains no speech.''))"
    by (simp add: transcribeMedia_sends transcribeMedia_resume_def)
next
  assume a: "transcribeMedia_begin env_API_KEY base64Data mimeType ts = Inr req
      \<and> generateContent req = Rejected (Thrown (Str (js ''The AI returned an empty response. This can happen if the media content is not recognized or contains no speech.'')) j)"
  have "catch_clause E (Thrown (Str (js ''The AI returned an empty response. This can happen if the media content is not recognized or contains no speech.'')) j) = Error (js ''The AI returned an empty response. This can happen if the media content is not recognized or contains no speech.'')"
    using empty_response_unmarked messages_differ(2)
    by (simp add: catch_clause_string del: includes_str.simps)
  with a show "transcribeMedia E env_API_KEY generateContent base64Data mimeType ts =
          (Inl (Error (js ''The AI returned an empty response. This can happen if the media content is not recognized or contains no speech.'')), [req])"
    by (simp add: transcribeMedia_sends transcribeMedia_resume_def)
qed

theorem transcribeMedia_empty_response_witness:
  "transcribeMedia \<lparr>max_string_length = 536870888, max_arguments = 65536, type_error_message = js ''Cannot read properties of null''\<rparr> (Some (js ''k'')) (\<lambda>req. Resolved (Some [])) (js ''TWFu'') (js ''audio/mp3'') (Some True) =
     (Inl (Error (js ''The AI returned an empty response. This can happen if the media content is not recognized or contains no speech.'')),
      [\<lparr>req_model = js ''gemini-3-flash-preview'', req_mimeType = js ''audio/mp3'',
        req_data = js ''TWFu'', req_text = instruction (js ''audio/mp3'') True\<rparr>])
   \<and> fst (transcribeMedia \<lparr>max_string_length = 536870888, max_arguments = 65536, type_error_message = js ''Cannot read properties of null''\<rparr> (Some (js ''k'')) (\<lambda>req. Resolved (Some (js ''Hello world''))) (js ''TWFu'') (js ''audio/mp3'') (Some True)) = Inr (js ''Hello world'')
   \<and> js ''Hello world'' \<noteq> []
   \<and> js ''fetch failed'' \<noteq> js ''The AI returned an empty response. This can happen if the media content is not recognized or contains no speech.''
   \<and> fst (transcribeMedia \<lparr>max_string_length = 536870888, max_arguments = 65536, type_error_message = js ''Cannot read properties of null''\<rparr> (Some (js ''k''))
        (\<lambda>req. Rejected (Thrown (Str (js ''fetch failed'')) (JsonString (js ''{}''))))
        (js ''TWFu'') (js ''audio/mp3'') (Some True)) \<noteq> Inl (Error (js ''The AI returned an empty response. This can happen if the media content is not recognized or contains no speech.''))
   \<and> fst (transcribeMedia \<lparr>max_string_length = 536870888, max_arguments = 65536, type_error_message = js ''Cannot read properties of null''\<rparr> (Some (js ''k''))
        (\<lambda>req. Rejected (Thrown (Str (js ''The AI returned an empty response. This can happen if the media content is not recognized or contains no speech.'')) (JsonString (js ''{}''))))
        (js ''TWFu'') (js ''audio/mp3'') (Some True)) = Inl (Error (js ''The AI returned an empty response. This can happen if the media content is not recognized or contains no speech.''))"
proof -
  note b = example_begin
  have h: "js ''Hello world'' \<noteq> []" by (simp add: js_def)
  have d: "js ''fetch failed'' \<noteq> js ''The AI returned an empty response. This can happen if the media content is not recognized or contains no speech.''" by (simp add: js_eq_iff)
  have ok: "fst (transcribeMedia \<lparr>max_string_length = 536870888, max_arguments = 65536, type_error_message = js ''Cannot read properties of null''\<rparr> (Some (js ''k'')) (\<lambda>req. Resolved (Some (js ''Hello world''))) (js ''TWFu'') (js ''audio/mp3'') (Some True)) = Inr (js ''Hello world'')"
    using h by (simp add: transcribeMedia_sends [OF b] transcribeMedia_resume_def)
  from transcribeMedia_empty_response [of "Some (js ''k'')" "js ''TWFu''" "js ''audio/mp3''" "Some True"
      "\<lparr>req_model = js ''gemini-3-flash-preview'', req_mimeType = js ''audio/mp3'',
        req_data = js ''TWFu'', req_text = instruction (js ''audio/mp3'') True\<rparr>"
      "\<lambda>req. Resolved (Some [])" "\<lparr>max_string_length = 536870888, max_arguments = 65536, type_error_message = js ''Cannot read properties of null''\<rparr>"] b
  have 1: "transcribeMedia \<lparr>max_string_length = 536870888, max_arguments = 65536, type_error_message = js ''Cannot read properties of null''\<rparr> (Some (js ''k'')) (\<lambda>req. Resolved (Some [])) (js ''TWFu'') (js ''audio/mp3'') (Some True) =
     (Inl (Error (js ''The AI returned an empty response. This can happen if the media content is not recognized or contains no speech.'')),
      [\<lparr>req_model = js ''gemini-3-flash-preview'', req_mimeType = js ''audio/mp3'',
        req_data = js ''TWFu'', req_text = instruction (js ''audio/mp3'') True\<rparr>])"
    by blast
  from transcribeMedia_empty_response [of "Some (js ''k'')" "js ''TWFu''" "js ''audio/mp3''" "Some True" _
      "\<lambda>req. Resolved (Some (js ''Hello world''))" "\<lparr>max_string_length = 536870888, max_arguments = 65536, type_error_message = js ''Cannot read properties of null''\<rparr>" "js ''Hello world''"] ok
  have 2: "js ''Hello world'' \<noteq> []" by blast
  from transcribeMedia_empty_response [of "Some (js ''k'')" "js ''TWFu''" "js ''audio/mp3''" "Some True"
      "\<lparr>req_model = js ''gemini-3-flash-preview'', req_mimeType = js ''audio/mp3'',
        req_data = js ''TWFu'', req_text = instruction (js ''audio/mp3'') True\<rparr>"
      "\<lambda>req. Rejected (Thrown (Str (js ''fetch failed'')) (JsonString (js ''{}'')))" "\<lparr>max_string_length = 536870888, max_arguments = 65536, type_error_message = js ''Cannot read properties of null''\<rparr>" _
      "js ''fetch failed''" "JsonString (js ''{}'')"] b d
  have 3: "fst (transcribeMedia \<lparr>max_string_length = 536870888, max_arguments = 65536, type_error_message = js ''Cannot read properties of null''\<rparr> (Some (js ''k''))
        (\<lambda>req. Rejected (Thrown (Str (js ''fetch failed'')) (JsonString (js ''{}''))))
        (js ''TWFu'') (js ''audio/mp3'') (Some True)) \<noteq> Inl (Error (js ''The AI returned an empty response. This can happen if the media content is not recognized or contains no speech.''))"
    by blast
  from transcribeMedia_empty_response [of "Some (js ''k'')" "js ''TWFu''" "js ''audio/mp3''" "Some True"
      "\<lparr>req_model = js ''gemini-3-flash-preview'', req_mimeType = js ''audio/mp3'',
        req_data = js ''TWFu'', req_text = instruction (js ''audio/mp3'') True\<rparr>"
      "\<lambda>req. Rejected (Thrown (Str (js ''The AI returned an empty response. This can happen if the media content is not recognized or contains no speech.'')) (JsonString (js ''{}'')))" "\<lparr>max_string_length = 536870888, max_arguments = 65536, type_error_message = js ''Cannot read properties of null''\<rparr>" _ _
      "JsonString (js ''{}'')"] b
  have 4: "fst (transcribeMedia \<lparr>max_string_length = 536870888, max_arguments = 65536, type_error_message = js ''Cannot read properties of null''\<rparr> (Some (js ''k''))
        (\<lambda>req. Rejected (Thrown (Str (js ''The AI returned an empty response. This can happen if the media content is not recognized or contains no speech.'')) (JsonString (js ''{}''))))
        (js ''TWFu'') (js ''audio/mp3'') (Some True)) = Inl (Error (js ''The AI returned an empty response. This can happen if the media content is not recognized or contains no speech.''))"
    by simp
  from 1 ok 2 d 3 4 show ?thesis by blast
qed

theorem transcribeMedia_empty_response_counterexample:
  "transcribeMedia \<lparr>max_string_length = 536870888, max_arguments = 65536, type_error_message = js ''Cannot read properties of null''\<rparr> (Some (js ''k''))
     (\<lambda>req. Rejected (Thrown (Str (js ''The AI returned an empty response. This can happen if the media content is not recognized or contains no speech.'')) (JsonString (js ''{}''))))
     (js ''TWFu'') (js ''audio/mp3'') (Some True)
   = transcribeMedia \<lparr>max_string_length = 536870888, max_arguments = 65536, type_error_message = js ''Cannot read properties of null''\<rparr> (Some (js ''k''))
     (\<lambda>req. Resolved (Some []))
     (js ''TWFu'') (js ''audio/mp3'') (Some True)"
  using empty_response_unmarked messages_differ(2)
  by (simp add: transcribeMedia_sends [OF example_begin] transcribeMedia_resume_def
      catch_clause_empty_response catch_clause_string del: includes_str.simps)

text \<open>
  Claim C7. When the three checks pass, exactly one request goes out. Its text begins by
  naming a video file exactly when the MIME type starts with \<open>video\<close>, and an audio file
  otherwise; it contains the sentence that requires \<open>[HH:MM:SS]\<close> timestamps at the
  beginning of each paragraph or speaker turn, accurate to the timeline, exactly when the
  flag is true, and the sentence that forbids timestamps exactly when the flag is false.
\<close>

theorem transcribeMedia_instruction:
  assumes "apiKey env_API_KEY \<noteq> []" and "base64Data \<noteq> []"
    and "real (length base64Data) * 3 / 4 \<le> 500 * 1024 * 1024"
  shows "\<exists>req. snd (transcribeMedia E env_API_KEY generateContent base64Data mimeType (Some ts)) = [req]
     \<and> (startsWith (req_text req) (js ''Carefully transcribe the following video file.'')
          \<longleftrightarrow> startsWith mimeType (js ''video''))
     \<and> (startsWith (req_text req) (js ''Carefully transcribe the following audio file.'')
          \<longleftrightarrow> \<not> startsWith mimeType (js ''video''))
     \<and> (includes_str (req_text req) (js ''Include timestamps in [HH:MM:SS] format at the beginning of each paragraph or when a new speaker starts. Ensure they are accurate to the media's timeline.'')
          \<longleftrightarrow> ts)
     \<and> (includes_str (req_text req) (js ''Do not include any timestamps.'') \<longleftrightarrow> \<not> ts)"
proof -
  let ?req = "\<lparr>req_model = js ''gemini-3-flash-preview'', req_mimeType = mimeType,
          req_data = base64Data, req_text = instruction mimeType ts\<rparr>"
  have sent: "snd (transcribeMedia E env_API_KEY generateContent base64Data mimeType (Some ts)) = [?req]"
    using transcribeMedia_sends [OF transcribeMedia_begin_passes [OF assms, of mimeType "Some ts"]]
    by simp
  have on: "includes_str (instruction mimeType ts) (js ''Include timestamps in [HH:MM:SS] format at the beginning of each paragraph or when a new speaker starts. Ensure they are accurate to the media's timeline.'') \<longleftrightarrow> ts"
  proof (cases ts)
    case True
    with instruction_includes_timestampInstruction [of mimeType True] show ?thesis
      by (simp add: timestampInstruction_def)
  next
    case False
    with not_includes_str [OF bracket_present bracket_absent, of mimeType] show ?thesis
      by simp
  qed
  have off: "includes_str (instruction mimeType ts) (js ''Do not include any timestamps.'') \<longleftrightarrow> \<not> ts"
  proof (cases ts)
    case True
    with not_includes_str [OF D_present D_absent, of mimeType] show ?thesis
      by simp
  next
    case False
    with instruction_includes_timestampInstruction [of mimeType False] show ?thesis
      by (simp add: timestampInstruction_def)
  qed
  from sent instruction_kind [of mimeType ts] on off show ?thesis
    by simp
qed

theorem transcribeMedia_instruction_witness:
  "apiKey (Some (js ''k'')) \<noteq> [] \<and> js ''TWFu'' \<noteq> []
   \<and> real (length (js ''TWFu'')) * 3 / 4 \<le> 500 * 1024 * 1024
   \<and> (\<exists>req. snd (transcribeMedia \<lparr>max_string_length = 536870888, max_arguments = 65536, type_error_message = js ''Cannot read properties of null''\<rparr>
      (Some (js ''k'')) (\<lambda>req. Resolved (Some (js ''Hello world'')))
                  (js ''TWFu'') (js ''video/mp4'') (Some False)) = [req]
     \<and> (startsWith (req_text req) (js ''Carefully transcribe the following video file.'')
          \<longleftrightarrow> startsWith (js ''video/mp4'') (js ''video''))
     \<and> (startsWith (req_text req) (js ''Carefully transcribe the following audio file.'')
          \<longleftrightarrow> \<not> startsWith (js ''video/mp4'') (js ''video''))
     \<and> (includes_str (req_text req) (js ''Include timestamps in [HH:MM:SS] format at the beginning of each paragraph or when a new speaker starts. Ensure they are accurate to the media's timeline.'')
          \<longleftrightarrow> False)
     \<and> (includes_str (req_text req) (js ''Do not include any timestamps.'') \<longleftrightarrow> \<not> False))
   \<and> startsWith (js ''video/mp4'') (js ''video'')"
proof -
  have v: "startsWith (js ''video/mp4'') (js ''video'')"
    by (simp add: startsWith_js scan)
  from transcribeMedia_instruction [OF example_passes,
      where generateContent = "\<lambda>req. Resolved (Some (js ''Hello world''))"
        and mimeType = "js ''video/mp4''" and ts = False
        and E = "\<lparr>max_string_length = 536870888, max_arguments = 65536, type_error_message = js ''Cannot read properties of null''\<rparr>"]
    example_passes v
  show ?thesis by blast
qed







section \<open>Properties of the orchestration layer\<close>

lemma reachable_run:
  "reachable E env_API_KEY w \<Longrightarrow> offered_all E env_API_KEY w evs \<Longrightarrow> reachable E env_API_KEY (run E env_API_KEY w evs)"
  by (induction evs arbitrary: w) (auto intro: reachable_step)

lemma status_handleTranscribe_resume:
  "status (handleTranscribe_resume settled a) \<noteq> PROCESSING \<or> status a = PROCESSING"
  by (cases settled) (simp_all add: handleTranscribe_resume_def)

lemma fileData_handleTranscribe_resume [simp]:
  "fileData (handleTranscribe_resume settled a) = fileData a"
  by (cases settled) (simp_all add: handleTranscribe_resume_def)

lemma status_handleFileSelect_resume [simp]:
  "status (handleFileSelect_resume f previewUrl settled a) = status a"
  by (cases settled) (simp_all add: handleFileSelect_resume_def)

lemma fileData_handleFileSelect_resume:
  "fileData a \<noteq> None \<Longrightarrow> fileData (handleFileSelect_resume f previewUrl settled a) \<noteq> None"
  by (cases settled) (simp_all add: handleFileSelect_resume_def)

lemma processing_step:
  assumes "status (app w) = PROCESSING \<longrightarrow> fileData (app w) \<noteq> None"
    and "status (app (step E env_API_KEY w ev)) = PROCESSING"
  shows "fileData (app (step E env_API_KEY w ev)) \<noteq> None"
proof (cases ev)
  case (SelectFile f previewUrl)
  with assms show ?thesis by (simp add: handleFileSelect_def)
next
  case (FileRead i r)
  show ?thesis
  proof (cases "i < length (reading w)")
    case True
    with assms FileRead have "fileData (app w) \<noteq> None" by simp
    then have "fileData (handleFileSelect_resume (fst (reading w ! i)) (snd (reading w ! i))
        (fileToBase64 E r) (app w)) \<noteq> None"
      by (rule fileData_handleFileSelect_resume)
    with True FileRead show ?thesis by simp
  next
    case False
    with assms FileRead show ?thesis by simp
  qed
next
  case ClickTranscribe
  with assms show ?thesis
    by (auto simp: handleTranscribe_def Let_def handleTranscribe_resume_def
        split: option.splits if_splits sum.splits)
next
  case (Reply i outcome)
  with assms status_handleTranscribe_resume [of "transcribeMedia_resume E outcome" "app w"]
  show ?thesis
    by (auto split: if_splits)
next
  case ClickReset
  with assms show ?thesis by (simp add: resetApp_def)
next
  case ToggleTimestamps
  with assms show ?thesis by simp
qed

lemma processing_has_file:
  "reachable E env_API_KEY w \<Longrightarrow> status (app w) = PROCESSING \<Longrightarrow> fileData (app w) \<noteq> None"
proof (induction rule: reachable.induct)
  case reachable_initial
  then show ?case by (simp add: initial_world_def initial_App_def)
next
  case (reachable_step w ev)
  then show ?case using processing_step by blast
qed

lemma UNIV_AppStatus: "(UNIV :: AppStatus set) = {IDLE, PROCESSING, SUCCESS, ERROR}"
  using AppStatus.exhaust by auto

lemma example_validate:
  "validateAndSelectFile \<lparr>file_name = js ''a.mp3'', file_type = js ''audio/mpeg'', file_size = 3\<rparr> = Inr ()"
  "validateAndSelectFile \<lparr>file_name = js ''b.mp4'', file_type = js ''video/mp4'', file_size = 5\<rparr> = Inr ()"
  by (simp_all add: validateAndSelectFile_def startsWith_js scan)

lemmas example_eval =
  initial_world_def initial_App_def handleFileSelect_def handleFileSelect_resume_def
  fileToBase64_loaded handleTranscribe_def handleTranscribe_resume_def transcribeMedia_begin_def
  transcribeMedia_resume_def resetApp_def remove_nth_def apiKey_def or_else_def not_empty_js
  example_validate Let_def chunk_size_def

lemma example_processing:
  "offered_all \<lparr>max_string_length = 536870888, max_arguments = 65536, type_error_message = js ''Cannot read properties of null''\<rparr>
      (Some (js ''k'')) initial_world
     [SelectFile \<lparr>file_name = js ''a.mp3'', file_type = js ''audio/mpeg'', file_size = 3\<rparr> (js ''blob:1''),
      FileRead 0 (OnLoad (Some [77, 97, 110])),
      ClickTranscribe]"
  "status (app (run \<lparr>max_string_length = 536870888, max_arguments = 65536, type_error_message = js ''Cannot read properties of null''\<rparr>
      (Some (js ''k'')) initial_world
     [SelectFile \<lparr>file_name = js ''a.mp3'', file_type = js ''audio/mpeg'', file_size = 3\<rparr> (js ''blob:1''),
      FileRead 0 (OnLoad (Some [77, 97, 110])),
      ClickTranscribe])) = PROCESSING"
  by (simp_all add: example_eval)

text \<open>
  Claim C9, as amended. In a world the page can get into, the upload control is not
  offered while the status is \<open>PROCESSING\<close>. \<open>handleFileSelect\<close> itself has no guard:
  called in \<open>PROCESSING\<close> it resets and proceeds. The status becomes \<open>IDLE\<close>, the
  preparing flag is set, file data, transcription and error message are cleared, the new
  file is read, and no request is issued or withdrawn by the selection.
\<close>

theorem handleFileSelect_while_processing:
  assumes "status (app w) = PROCESSING"
  shows "(reachable E env_API_KEY w \<longrightarrow> \<not> offered w (SelectFile f previewUrl))
    \<and> status (app (step E env_API_KEY w (SelectFile f previewUrl))) = IDLE
    \<and> isPreparing (app (step E env_API_KEY w (SelectFile f previewUrl)))
    \<and> fileData (app (step E env_API_KEY w (SelectFile f previewUrl))) = None
    \<and> transcription (app (step E env_API_KEY w (SelectFile f previewUrl))) = None
    \<and> errorMsg (app (step E env_API_KEY w (SelectFile f previewUrl))) = None
    \<and> reading (step E env_API_KEY w (SelectFile f previewUrl)) = reading w @ [(f, previewUrl)]
    \<and> in_flight (step E env_API_KEY w (SelectFile f previewUrl)) = in_flight w
    \<and> sent (step E env_API_KEY w (SelectFile f previewUrl)) = sent w"
  using assms processing_has_file [of E env_API_KEY w]
  by (auto simp: handleFileSelect_def)

theorem handleFileSelect_while_processing_counterexample:
  "offered_all \<lparr>max_string_length = 536870888, max_arguments = 65536, type_error_message = js ''Cannot read properties of null''\<rparr>
      (Some (js ''k'')) initial_world
     [SelectFile \<lparr>file_name = js ''a.mp3'', file_type = js ''audio/mpeg'', file_size = 3\<rparr> (js ''blob:1''),
      FileRead 0 (OnLoad (Some [77, 97, 110])),
      ClickTranscribe]
   \<and> status (app (run \<lparr>max_string_length = 536870888, max_arguments = 65536, type_error_message = js ''Cannot read properties of null''\<rparr>
      (Some (js ''k'')) initial_world
     [SelectFile \<lparr>file_name = js ''a.mp3'', file_type = js ''audio/mpeg'', file_size = 3\<rparr> (js ''blob:1''),
      FileRead 0 (OnLoad (Some [77, 97, 110])),
      ClickTranscribe])) = PROCESSING
   \<and> status (app (handleFileSelect
       \<lparr>file_name = js ''b.mp4'', file_type = js ''video/mp4'', file_size = 5\<rparr> (js ''blob:2'')
       (run \<lparr>max_string_length = 536870888, max_arguments = 65536, type_error_message = js ''Cannot read properties of null''\<rparr>
      (Some (js ''k'')) initial_world
         [SelectFile \<lparr>file_name = js ''a.mp3'', file_type = js ''audio/mpeg'', file_size = 3\<rparr> (js ''blob:1''),
          FileRead 0 (OnLoad (Some [77, 97, 110])),
          ClickTranscribe]))) \<noteq> PROCESSING"
  using example_processing by (simp add: handleFileSelect_def)

theorem handleFileSelect_while_processing_witness:
  "status (app (run \<lparr>max_string_length = 536870888, max_arguments = 65536, type_error_message = js ''Cannot read properties of null''\<rparr>
      (Some (js ''k'')) initial_world
     [SelectFile \<lparr>file_name = js ''a.mp3'', file_type = js ''audio/mpeg'', file_size = 3\<rparr> (js ''blob:1''),
      FileRead 0 (OnLoad (Some [77, 97, 110])),
      ClickTranscribe])) = PROCESSING
   \<and> reachable \<lparr>max_string_length = 536870888, max_arguments = 65536, type_error_message = js ''Cannot read properties of null''\<rparr>
      (Some (js ''k'')) (run \<lparr>max_string_length = 536870888, max_arguments = 65536, type_error_message = js ''Cannot read properties of null''\<rparr>
      (Some (js ''k'')) initial_world
     [SelectFile \<lparr>file_name = js ''a.mp3'', file_type = js ''audio/mpeg'', file_size = 3\<rparr> (js ''blob:1''),
      FileRead 0 (OnLoad (Some [77, 97, 110])),
      ClickTranscribe])
   \<and> \<not> offered (run \<lparr>max_string_length = 536870888, max_arguments = 65536, type_error_message = js ''Cannot read properties of null''\<rparr>
      (Some (js ''k'')) initial_world
     [SelectFile \<lparr>file_name = js ''a.mp3'', file_type = js ''audio/mpeg'', file_size = 3\<rparr> (js ''blob:1''),
      FileRead 0 (OnLoad (Some [77, 97, 110])),
      ClickTranscribe])
     (SelectFile \<lparr>file_name = js ''b.mp4'', file_type = js ''video/mp4'', file_size = 5\<rparr> (js ''blob:2''))
   \<and> status (app (step \<lparr>max_string_length = 536870888, max_arguments = 65536, type_error_message = js ''Cannot read properties of null''\<rparr>
      (Some (js ''k'')) (run \<lparr>max_string_length = 536870888, max_arguments = 65536, type_error_message = js ''Cannot read properties of null''\<rparr>
      (Some (js ''k'')) initial_world
     [SelectFile \<lparr>file_name = js ''a.mp3'', file_type = js ''audio/mpeg'', file_size = 3\<rparr> (js ''blob:1''),
      FileRead 0 (OnLoad (Some [77, 97, 110])),
      ClickTranscribe])
     (SelectFile \<lparr>file_name = js ''b.mp4'', file_type = js ''video/mp4'', file_size = 5\<rparr> (js ''blob:2'')))) = IDLE"
proof -
  have r: "reachable \<lparr>max_string_length = 536870888, max_arguments = 65536, type_error_message = js ''Cannot read properties of null''\<rparr>
      (Some (js ''k'')) (run \<lparr>max_string_length = 536870888, max_arguments = 65536, type_error_message = js ''Cannot read properties of null''\<rparr>
      (Some (js ''k'')) initial_world
     [SelectFile \<lparr>file_name = js ''a.mp3'', file_type = js ''audio/mpeg'', file_size = 3\<rparr> (js ''blob:1''),
      FileRead 0 (OnLoad (Some [77, 97, 110])),
      ClickTranscribe])"
    by (rule reachable_run [OF reachable_initial example_processing(1)])
  from handleFileSelect_while_processing [OF example_processing(2),
      where f = "\<lparr>file_name = js ''b.mp4'', file_type = js ''video/mp4'', file_size = 5\<rparr>"
        and previewUrl = "js ''blob:2''"]
    r example_processing(2)
  show ?thesis by blast
qed

text \<open>
  Claim C8, as amended. \<open>AppStatus\<close> has exactly the four values \<open>IDLE\<close>,
  \<open>PROCESSING\<close>, \<open>SUCCESS\<close> and \<open>ERROR\<close>; preparing is the separate boolean
  \<open>isPreparing\<close>. Every change of either is the work of a handler of \<open>App\<close>:
  \<open>handleFileSelect\<close> sets \<open>IDLE\<close> and the flag, and clears the flag when the read
  settles; \<open>handleTranscribe\<close>, when file data with a non-empty payload is attached, sets
  \<open>ERROR\<close> if a check of \<open>transcribeMedia\<close> fails and \<open>PROCESSING\<close> if the request goes
  out, and when the reply arrives \<open>SUCCESS\<close> if \<open>transcribeMedia\<close> resolves and \<open>ERROR\<close>
  if it rejects; \<open>resetApp\<close> sets \<open>IDLE\<close> and clears the flag. Nothing else changes
  them.
\<close>

theorem AppStatus_transitions:
  "(UNIV :: AppStatus set) = {IDLE, PROCESSING, SUCCESS, ERROR}
   \<and> card (UNIV :: AppStatus set) = 4
   \<and> status (app (step E env_API_KEY w ev)) =
       (case ev of
          SelectFile f previewUrl \<Rightarrow> IDLE
        | FileRead i r \<Rightarrow> status (app w)
        | ClickTranscribe \<Rightarrow>
            (case fileData (app w) of
               None \<Rightarrow> status (app w)
             | Some fd \<Rightarrow>
                 if fd_base64 fd = [] then status (app w)
                 else
                   (case transcribeMedia_begin env_API_KEY (fd_base64 fd) (file_type (fd_file fd))
                           (Some (includeTimestamps (app w))) of
                      Inl err \<Rightarrow> ERROR
                    | Inr req \<Rightarrow> PROCESSING))
        | Reply i outcome \<Rightarrow>
            if i < length (in_flight w)
            then (case transcribeMedia_resume E outcome of Inl err \<Rightarrow> ERROR | Inr result \<Rightarrow> SUCCESS)
            else status (app w)
        | ClickReset \<Rightarrow> IDLE
        | ToggleTimestamps \<Rightarrow> status (app w))
   \<and> isPreparing (app (step E env_API_KEY w ev)) =
       (case ev of
          SelectFile f previewUrl \<Rightarrow> True
        | FileRead i r \<Rightarrow> (if i < length (reading w) then False else isPreparing (app w))
        | ClickTranscribe \<Rightarrow> isPreparing (app w)
        | Reply i outcome \<Rightarrow> isPreparing (app w)
        | ClickReset \<Rightarrow> False
        | ToggleTimestamps \<Rightarrow> isPreparing (app w))"
proof (intro conjI)
  show "(UNIV :: AppStatus set) = {IDLE, PROCESSING, SUCCESS, ERROR}"
    by (rule UNIV_AppStatus)
  show "card (UNIV :: AppStatus set) = 4"
    unfolding UNIV_AppStatus by simp
  show "status (app (step E env_API_KEY w ev)) =
       (case ev of
          SelectFile f previewUrl \<Rightarrow> IDLE
        | FileRead i r \<Rightarrow> status (app w)
        | ClickTranscribe \<Rightarrow>
            (case fileData (app w) of
               None \<Rightarrow> status (app w)
             | Some fd \<Rightarrow>
                 if fd_base64 fd = [] then status (app w)
                 else
                   (case transcribeMedia_begin env_API_KEY (fd_base64 fd) (file_type (fd_file fd))
                           (Some (includeTimestamps (app w))) of
                      Inl err \<Rightarrow> ERROR
                    | Inr req \<Rightarrow> PROCESSING))
        | Reply i outcome \<Rightarrow>
            if i < length (in_flight w)
            then (case transcribeMedia_resume E outcome of Inl err \<Rightarrow> ERROR | Inr result \<Rightarrow> SUCCESS)
            else status (app w)
        | ClickReset \<Rightarrow> IDLE
        | ToggleTimestamps \<Rightarrow> status (app w))"
    by (cases ev)
      (auto simp: handleFileSelect_def handleTranscribe_def Let_def handleTranscribe_resume_def
        resetApp_def split: option.splits sum.splits)
  show "isPreparing (app (step E env_API_KEY w ev)) =
       (case ev of
          SelectFile f previewUrl \<Rightarrow> True
        | FileRead i r \<Rightarrow> (if i < length (reading w) then False else isPreparing (app w))
        | ClickTranscribe \<Rightarrow> isPreparing (app w)
        | Reply i outcome \<Rightarrow> isPreparing (app w)
        | ClickReset \<Rightarrow> False
        | ToggleTimestamps \<Rightarrow> isPreparing (app w))"
    by (cases ev)
      (auto simp: handleFileSelect_def handleFileSelect_resume_def handleTranscribe_def Let_def
        handleTranscribe_resume_def resetApp_def split: option.splits sum.splits if_splits)
qed

theorem AppStatus_transitions_witness:
  "status (app (step \<lparr>max_string_length = 536870888, max_arguments = 65536, type_error_message = js ''Cannot read properties of null''\<rparr> (Some (js ''k''))
      (run \<lparr>max_string_length = 536870888, max_arguments = 65536, type_error_message = js ''Cannot read properties of null''\<rparr> (Some (js ''k'')) initial_world
        [SelectFile \<lparr>file_name = js ''a.mp3'', file_type = js ''audio/mpeg'', file_size = 3\<rparr> (js ''blob:1''),
         FileRead 0 (OnLoad (Some [77, 97, 110]))])
      ClickTranscribe)) = PROCESSING
   \<and> status (app (step \<lparr>max_string_length = 536870888, max_arguments = 65536, type_error_message = js ''Cannot read properties of null''\<rparr> (Some (js ''k''))
      (run \<lparr>max_string_length = 536870888, max_arguments = 65536, type_error_message = js ''Cannot read properties of null''\<rparr> (Some (js ''k'')) initial_world
        [SelectFile \<lparr>file_name = js ''a.mp3'', file_type = js ''audio/mpeg'', file_size = 3\<rparr> (js ''blob:1''),
         FileRead 0 (OnLoad (Some [77, 97, 110])),
         ClickTranscribe])
      (Reply 0 (Resolved (Some (js ''Hello world'')))))) = SUCCESS
   \<and> status (app (step \<lparr>max_string_length = 536870888, max_arguments = 65536, type_error_message = js ''Cannot read properties of null''\<rparr> (Some (js ''k''))
      (run \<lparr>max_string_length = 536870888, max_arguments = 65536, type_error_message = js ''Cannot read properties of null''\<rparr> (Some (js ''k'')) initial_world
        [SelectFile \<lparr>file_name = js ''a.mp3'', file_type = js ''audio/mpeg'', file_size = 3\<rparr> (js ''blob:1''),
         FileRead 0 (OnLoad (Some [77, 97, 110])),
         ClickTranscribe])
      (Reply 0 (Resolved None)))) = ERROR"
proof -
  have h: "js ''Hello world'' \<noteq> []" by (simp add: js_def)
  from AppStatus_transitions [of "\<lparr>max_string_length = 536870888, max_arguments = 65536, type_error_message = js ''Cannot read properties of null''\<rparr>" "Some (js ''k'')"
      "run \<lparr>max_string_length = 536870888, max_arguments = 65536, type_error_message = js ''Cannot read properties of null''\<rparr> (Some (js ''k'')) initial_world
        [SelectFile \<lparr>file_name = js ''a.mp3'', file_type = js ''audio/mpeg'', file_size = 3\<rparr> (js ''blob:1''),
         FileRead 0 (OnLoad (Some [77, 97, 110]))]"
      ClickTranscribe]
  have 1: "status (app (step \<lparr>max_string_length = 536870888, max_arguments = 65536, type_error_message = js ''Cannot read properties of null''\<rparr> (Some (js ''k''))
      (run \<lparr>max_string_length = 536870888, max_arguments = 65536, type_error_message = js ''Cannot read properties of null''\<rparr> (Some (js ''k'')) initial_world
        [SelectFile \<lparr>file_name = js ''a.mp3'', file_type = js ''audio/mpeg'', file_size = 3\<rparr> (js ''blob:1''),
         FileRead 0 (OnLoad (Some [77, 97, 110]))])
      ClickTranscribe)) = PROCESSING"
    by (simp add: example_eval)
  from AppStatus_transitions [of "\<lparr>max_string_length = 536870888, max_arguments = 65536, type_error_message = js ''Cannot read properties of null''\<rparr>" "Some (js ''k'')"
      "run \<lparr>max_string_length = 536870888, max_arguments = 65536, type_error_message = js ''Cannot read properties of null''\<rparr> (Some (js ''k'')) initial_world
        [SelectFile \<lparr>file_name = js ''a.mp3'', file_type = js ''audio/mpeg'', file_size = 3\<rparr> (js ''blob:1''),
         FileRead 0 (OnLoad (Some [77, 97, 110])),
         ClickTranscribe]"
      "Reply 0 (Resolved (Some (js ''Hello world'')))"] h
  have 2: "status (app (step \<lparr>max_string_length = 536870888, max_arguments = 65536, type_error_message = js ''Cannot read properties of null''\<rparr> (Some (js ''k''))
      (run \<lparr>max_string_length = 536870888, max_arguments = 65536, type_error_message = js ''Cannot read properties of null''\<rparr> (Some (js ''k'')) initial_world
        [SelectFile \<lparr>file_name = js ''a.mp3'', file_type = js ''audio/mpeg'', file_size = 3\<rparr> (js ''blob:1''),
         FileRead 0 (OnLoad (Some [77, 97, 110])),
         ClickTranscribe])
      (Reply 0 (Resolved (Some (js ''Hello world'')))))) = SUCCESS"
    by (simp add: example_eval)
  from AppStatus_transitions [of "\<lparr>max_string_length = 536870888, max_arguments = 65536, type_error_message = js ''Cannot read properties of null''\<rparr>" "Some (js ''k'')"
      "run \<lparr>max_string_length = 536870888, max_arguments = 65536, type_error_message = js ''Cannot read properties of null''\<rparr> (Some (js ''k'')) initial_world
        [SelectFile \<lparr>file_name = js ''a.mp3'', file_type = js ''audio/mpeg'', file_size = 3\<rparr> (js ''blob:1''),
         FileRead 0 (OnLoad (Some [77, 97, 110])),
         ClickTranscribe]"
      "Reply 0 (Resolved None)"]
  have 3: "status (app (step \<lparr>max_string_length = 536870888, max_arguments = 65536, type_error_message = js ''Cannot read properties of null''\<rparr> (Some (js ''k''))
      (run \<lparr>max_string_length = 536870888, max_arguments = 65536, type_error_message = js ''Cannot read properties of null''\<rparr> (Some (js ''k'')) initial_world
        [SelectFile \<lparr>file_name = js ''a.mp3'', file_type = js ''audio/mpeg'', file_size = 3\<rparr> (js ''blob:1''),
         FileRead 0 (OnLoad (Some [77, 97, 110])),
         ClickTranscribe])
      (Reply 0 (Resolved None)))) = ERROR"
    by (simp add: example_eval)
  from 1 2 3 show ?thesis by blast
qed

theorem AppStatus_transitions_counterexample:
  "card (UNIV :: AppStatus set) = 4
   \<and> offered_all \<lparr>max_string_length = 536870888, max_arguments = 65536, type_error_message = js ''Cannot read properties of null''\<rparr>
      (Some (js ''k'')) initial_world
     [SelectFile \<lparr>file_name = js ''a.mp3'', file_type = js ''audio/mpeg'', file_size = 3\<rparr> (js ''blob:1''),
      FileRead 0 (OnLoad (Some [77, 97, 110])),
      ClickTranscribe,
      ClickReset,
      SelectFile \<lparr>file_name = js ''b.mp4'', file_type = js ''video/mp4'', file_size = 5\<rparr> (js ''blob:2''),
      Reply 0 (Resolved (Some (js ''Hello world'')))]
   \<and> status (app (run \<lparr>max_string_length = 536870888, max_arguments = 65536, type_error_message = js ''Cannot read properties of null''\<rparr>
      (Some (js ''k'')) initial_world
     [SelectFile \<lparr>file_name = js ''a.mp3'', file_type = js ''audio/mpeg'', file_size = 3\<rparr> (js ''blob:1''),
      FileRead 0 (OnLoad (Some [77, 97, 110])),
      ClickTranscribe,
      ClickReset,
      SelectFile \<lparr>file_name = js ''b.mp4'', file_type = js ''video/mp4'', file_size = 5\<rparr> (js ''blob:2''),
      Reply 0 (Resolved (Some (js ''Hello world'')))])) = SUCCESS
   \<and> isPreparing (app (run \<lparr>max_string_length = 536870888, max_arguments = 65536, type_error_message = js ''Cannot read properties of null''\<rparr>
      (Some (js ''k'')) initial_world
     [SelectFile \<lparr>file_name = js ''a.mp3'', file_type = js ''audio/mpeg'', file_size = 3\<rparr> (js ''blob:1''),
      FileRead 0 (OnLoad (Some [77, 97, 110])),
      ClickTranscribe,
      ClickReset,
      SelectFile \<lparr>file_name = js ''b.mp4'', file_type = js ''video/mp4'', file_size = 5\<rparr> (js ''blob:2''),
      Reply 0 (Resolved (Some (js ''Hello world'')))]))"
proof -
  have h: "js ''Hello world'' \<noteq> []" by (simp add: js_def)
  have "card (UNIV :: AppStatus set) = 4"
    unfolding UNIV_AppStatus by simp
  then show ?thesis
    using h by (simp add: example_eval)
qed

end
